theory Spec2Isabelle
  imports Complex_Main "HOL-Library.Sublist"
begin

unbundle bit_operations_syntax

section \<open>YaYa Wallet webhook service: verification and dispatch\<close>

text \<open>
  A shallow embedding of the webhook verifier (\<^verbatim>\<open>services/webhookVerification.ts\<close>),
  the processing pipeline (\<^verbatim>\<open>services/webhookProcessor.ts\<close>) and the request handler
  (\<^verbatim>\<open>controllers/webhookController.ts\<close>).

  Modelling conventions.
  \<^item> A TypeScript \<^verbatim>\<open>string\<close> is a \<^typ>\<open>string\<close>: the sequence of its UTF-8 bytes, which is
    what the HMAC is computed over.
  \<^item> A TypeScript \<^verbatim>\<open>number\<close> is an \<^typ>\<open>int\<close>: the model covers the integer-valued numbers
    (unix seconds, millisecond tolerances, integer amounts) in the range where
    \<^verbatim>\<open>Number.prototype.toString\<close> prints plain decimal digits. The one quotient of the
    source, \<^verbatim>\<open>tolerance / 1000\<close>, is an exact rational.
  \<^item> What the code reads from its surroundings (\<^verbatim>\<open>process.env.NODE_ENV\<close>,
    \<^verbatim>\<open>Date.now()\<close>, the \<^verbatim>\<open>crypto\<close> module) is a field of an explicit \<open>runtime\<close> record.
  \<^item> A \<^verbatim>\<open>throw\<close> is the \<open>Inl\<close> of a sum type, a \<^verbatim>\<open>try/catch\<close> a case distinction on it.
  \<^item> Calls of the logger inside the verifier do not influence what it returns and are
    left out there; the processor and the handler thread the log as state.
\<close>

subsection \<open>Numbers and strings of the host language\<close>

text \<open>\<^verbatim>\<open>Number.prototype.toString\<close> on a non-negative integer: its decimal digits, most
  significant first.\<close>

definition digit :: "nat \<Rightarrow> char" where
  "digit d = ''0123456789'' ! d"

function nat_toString :: "nat \<Rightarrow> string" where
  "nat_toString n = (if n < 10 then [digit n] else nat_toString (n div 10) @ [digit (n mod 10)])"
  by pat_completeness auto
termination
  by (relation "measure (\<lambda>n. n)") auto

declare nat_toString.simps [simp del]

definition toString :: "int \<Rightarrow> string" where
  "toString i = (if i < 0 then CHR ''-'' # nat_toString (nat (- i)) else nat_toString (nat i))"




text \<open>\<^verbatim>\<open>Array.prototype.join\<close> on an array of strings.\<close>

fun join :: "string \<Rightarrow> string list \<Rightarrow> string" where
  "join sep [] = []"
| "join sep [x] = x"
| "join sep (x # y # r) = x @ sep @ join sep (y # r)"

subsection \<open>Types (\<^verbatim>\<open>types/webhook.ts\<close>)\<close>

text \<open>The field \<^verbatim>\<open>id\<close> is \<open>id'\<close> here, \<open>id\<close> being the identity function of HOL.\<close>

record YaYaWebhookPayload =
  id' :: string
  amount :: int
  currency :: string
  created_at_time :: int
  timestamp :: int
  cause :: string
  full_name :: string
  account_name :: string
  invoice_url :: string

text \<open>The optional fields \<^verbatim>\<open>error?\<close> and \<^verbatim>\<open>timestamp?\<close> are options. The result of
  \<^verbatim>\<open>verifyTimestamp\<close>, \<^verbatim>\<open>{ isValid: boolean; error?: string }\<close>, is the same record with
  the timestamp absent.\<close>

record WebhookVerificationResult =
  isValid :: bool
  error :: "string option"
  timestamp' :: "int option"

record WebhookConfig =
  secret :: string
  timestampTolerance :: int
  trustedIps :: "string list"

datatype exn = Error string

text \<open>The surroundings of the verifier: \<^verbatim>\<open>process.env.NODE_ENV\<close> (absent when unset),
  \<^verbatim>\<open>Date.now()\<close> in milliseconds, and
  \<^verbatim>\<open>crypto.createHmac('sha256', key).update(data, 'utf8').digest('hex')\<close> as a function of
  key and data that returns the digest or throws.\<close>

record runtime =
  NODE_ENV :: "string option"
  Date_now :: int
  createHmac_sha256_hex :: "string \<Rightarrow> string \<Rightarrow> exn + string"

subsection \<open>The verifier (\<^verbatim>\<open>services/webhookVerification.ts\<close>)\<close>

definition createSignedPayload :: "YaYaWebhookPayload \<Rightarrow> string" where
  "createSignedPayload payload = join [] [
     id' payload,
     toString (amount payload),
     currency payload,
     toString (created_at_time payload),
     toString (timestamp payload),
     cause payload,
     full_name payload,
     account_name payload,
     invoice_url payload]"

definition generateSignature :: "runtime \<Rightarrow> YaYaWebhookPayload \<Rightarrow> string \<Rightarrow> exn + string" where
  "generateSignature rt payload secret' =
     createHmac_sha256_hex rt secret' (createSignedPayload payload)"

text \<open>The number \<^verbatim>\<open>tolerance / 1000\<close> as the template literal prints it: the integer part,
  and the thousandths without trailing zeros when there are any. This is what a double
  prints for a tolerance of up to fifteen digits.\<close>

definition strip_zeros :: "string \<Rightarrow> string" where
  "strip_zeros s = rev (dropWhile (\<lambda>c. c = CHR ''0'') (rev s))"

definition thousandths :: "nat \<Rightarrow> string" where
  "thousandths r = strip_zeros [digit (r div 100), digit (r div 10 mod 10), digit (r mod 10)]"

definition toString_div_1000 :: "int \<Rightarrow> string" where
  "toString_div_1000 t =
     (if t < 0 then ''-'' else []) @ nat_toString (nat \<bar>t\<bar> div 1000) @
     (if nat \<bar>t\<bar> mod 1000 = 0 then [] else CHR ''.'' # thousandths (nat \<bar>t\<bar> mod 1000))"

text \<open>The two local constants of \<^verbatim>\<open>verifyTimestamp\<close>:
  \<^verbatim>\<open>Math.floor(Date.now() / 1000)\<close> and \<^verbatim>\<open>Math.abs(currentTime - receivedTimestamp)\<close>.\<close>

definition currentTime :: "runtime \<Rightarrow> int" where
  "currentTime rt = Date_now rt div 1000"

definition timeDifference :: "runtime \<Rightarrow> int \<Rightarrow> int" where
  "timeDifference rt receivedTimestamp = \<bar>currentTime rt - receivedTimestamp\<bar>"

definition verifyTimestamp :: "runtime \<Rightarrow> int \<Rightarrow> int \<Rightarrow> WebhookVerificationResult" where
  "verifyTimestamp rt receivedTimestamp tolerance =
     (if (of_int (timeDifference rt receivedTimestamp) :: rat) > of_int tolerance / 1000
      then \<lparr>isValid = False,
            error = Some (''Timestamp too old. Difference: '' @
                          toString (timeDifference rt receivedTimestamp) @
                          ''s, Tolerance: '' @ toString_div_1000 tolerance @ ''s''),
            timestamp' = None\<rparr>
      else \<lparr>isValid = True, error = None, timestamp' = None\<rparr>)"

definition isTrustedIp :: "runtime \<Rightarrow> string \<Rightarrow> WebhookConfig \<Rightarrow> bool" where
  "isTrustedIp rt clientIp config =
     (if NODE_ENV rt = Some ''development'' \<and> clientIp = ''::1'' then True
      else clientIp \<in> set (trustedIps config))"

text \<open>The body of the \<^verbatim>\<open>try\<close> block. The signature is the value of the request header, absent
  (\<^verbatim>\<open>undefined\<close>) when the header is missing; \<^verbatim>\<open>!==\<close> then compares a string with
  \<^verbatim>\<open>undefined\<close> and holds.\<close>

definition verifyWebhook_try ::
  "runtime \<Rightarrow> YaYaWebhookPayload \<Rightarrow> string option \<Rightarrow> string \<Rightarrow> WebhookConfig
   \<Rightarrow> exn + WebhookVerificationResult" where
  "verifyWebhook_try rt payload signature clientIp config =
     (if \<not> isTrustedIp rt clientIp config
      then Inr \<lparr>isValid = False, error = Some ''Untrusted IP address'', timestamp' = None\<rparr>
      else case generateSignature rt payload (secret config) of
        Inl e \<Rightarrow> Inl e
      | Inr expectedSignature \<Rightarrow>
          if signature \<noteq> Some expectedSignature
          then Inr \<lparr>isValid = False, error = Some ''Invalid signature'', timestamp' = None\<rparr>
          else let timestampVerification =
                     verifyTimestamp rt (timestamp payload) (timestampTolerance config)
               in if \<not> isValid timestampVerification
                  then Inr \<lparr>isValid = False, error = error timestampVerification,
                            timestamp' = None\<rparr>
                  else Inr \<lparr>isValid = True, error = None,
                            timestamp' = Some (timestamp payload)\<rparr>)"

definition verifyWebhook ::
  "runtime \<Rightarrow> YaYaWebhookPayload \<Rightarrow> string option \<Rightarrow> string \<Rightarrow> WebhookConfig
   \<Rightarrow> WebhookVerificationResult" where
  "verifyWebhook rt payload signature clientIp config =
     (case verifyWebhook_try rt payload signature clientIp config of
        Inr result \<Rightarrow> result
      | Inl e \<Rightarrow> \<lparr>isValid = False, error = Some ''Verification failed'', timestamp' = None\<rparr>)"


subsection \<open>The \<^verbatim>\<open>crypto\<close> module: SHA-256 and HMAC (FIPS 180-4, RFC 2104)\<close>

text \<open>The digest that Node's \<^verbatim>\<open>crypto\<close> computes, on bytes and 32-bit words as natural
  numbers, with the reduction modulo \<open>2 ^ 32\<close> written as \<open>take_bit 32\<close>.\<close>

definition add32 :: "nat \<Rightarrow> nat \<Rightarrow> nat" where
  "add32 x y = take_bit 32 (x + y)"

definition rotr :: "nat \<Rightarrow> nat \<Rightarrow> nat" where
  "rotr n x = drop_bit n x + push_bit (32 - n) (take_bit n x)"

definition Ch :: "nat \<Rightarrow> nat \<Rightarrow> nat \<Rightarrow> nat" where
  "Ch e f g = (e AND f) XOR ((e XOR 4294967295) AND g)"

definition Maj :: "nat \<Rightarrow> nat \<Rightarrow> nat \<Rightarrow> nat" where
  "Maj a b c = (a AND b) XOR (a AND c) XOR (b AND c)"

definition Sigma0 :: "nat \<Rightarrow> nat" where
  "Sigma0 x = rotr 2 x XOR rotr 13 x XOR rotr 22 x"

definition Sigma1 :: "nat \<Rightarrow> nat" where
  "Sigma1 x = rotr 6 x XOR rotr 11 x XOR rotr 25 x"

definition sigma0 :: "nat \<Rightarrow> nat" where
  "sigma0 x = rotr 7 x XOR rotr 18 x XOR drop_bit 3 x"

definition sigma1 :: "nat \<Rightarrow> nat" where
  "sigma1 x = rotr 17 x XOR rotr 19 x XOR drop_bit 10 x"

text \<open>The round constants and the initial hash value of the standard (sections 4.2.2 and
  5.3.3), in decimal.\<close>

definition K256 :: "nat list" where
  "K256 = [
     1116352408, 1899447441, 3049323471, 3921009573, 961987163, 1508970993, 2453635748, 2870763221,
     3624381080, 310598401, 607225278, 1426881987, 1925078388, 2162078206, 2614888103, 3248222580,
     3835390401, 4022224774, 264347078, 604807628, 770255983, 1249150122, 1555081692, 1996064986,
     2554220882, 2821834349, 2952996808, 3210313671, 3336571891, 3584528711, 113926993, 338241895,
     666307205, 773529912, 1294757372, 1396182291, 1695183700, 1986661051, 2177026350, 2456956037,
     2730485921, 2820302411, 3259730800, 3345764771, 3516065817, 3600352804, 4094571909, 275423344,
     430227734, 506948616, 659060556, 883997877, 958139571, 1322822218, 1537002063, 1747873779,
     1955562222, 2024104815, 2227730452, 2361852424, 2428436474, 2756734187, 3204031479, 3329325298]"

definition H0 :: "nat list" where
  "H0 = [1779033703, 3144134277, 1013904242, 2773480762,
         1359893119, 2600822924, 528734635, 1541459225]"

definition T1 :: "nat \<Rightarrow> nat \<Rightarrow> nat \<Rightarrow> nat \<Rightarrow> nat \<Rightarrow> nat \<Rightarrow> nat" where
  "T1 e f g h k w = add32 (add32 (add32 (add32 h (Sigma1 e)) (Ch e f g)) k) w"

definition T2 :: "nat \<Rightarrow> nat \<Rightarrow> nat \<Rightarrow> nat" where
  "T2 a b c = add32 (Sigma0 a) (Maj a b c)"

text \<open>One round: the eight working variables \<open>a\<close> to \<open>h\<close> are a list, the message schedule a
  window of its last sixteen words.\<close>

fun shift_vars :: "nat \<Rightarrow> nat \<Rightarrow> nat list \<Rightarrow> nat list" where
  "shift_vars t1 t2 [a, b, c, d, e, f, g, h] = [add32 t1 t2, a, b, c, add32 d t1, e, f, g]"
| "shift_vars t1 t2 s = s"

fun round256 :: "nat \<Rightarrow> nat \<Rightarrow> nat list \<Rightarrow> nat list" where
  "round256 k w [a, b, c, d, e, f, g, h] =
     shift_vars (T1 e f g h k w) (T2 a b c) [a, b, c, d, e, f, g, h]"
| "round256 k w s = s"

fun next_w :: "nat list \<Rightarrow> nat" where
  "next_w (w0 # w1 # w2 # w3 # w4 # w5 # w6 # w7 # w8 # w9 # w10 # w11 # w12 # w13 # w14 # r) =
     add32 (add32 (add32 (sigma1 w14) w9) (sigma0 w1)) w0"
| "next_w r = 0"

fun rounds :: "nat list \<Rightarrow> nat list \<Rightarrow> nat list \<Rightarrow> nat list" where
  "rounds [] s w = s"
| "rounds (k # ks) s [] = s"
| "rounds (k # ks) s (w0 # w) = rounds ks (round256 k w0 s) (w @ [next_w (w0 # w)])"

definition compress :: "nat list \<Rightarrow> nat list \<Rightarrow> nat list" where
  "compress hs blk = map2 add32 hs (rounds K256 hs blk)"

fun be32 :: "nat list \<Rightarrow> nat list" where
  "be32 (a # b # c # d # r) = (a * 16777216 + b * 65536 + c * 256 + d) # be32 r"
| "be32 r = []"

fun sha_blocks :: "nat list \<Rightarrow> nat list \<Rightarrow> nat list" where
  "sha_blocks hs (w0 # w1 # w2 # w3 # w4 # w5 # w6 # w7 # w8 # w9 # w10 # w11 # w12 # w13 # w14 # w15 # r) =
     sha_blocks (compress hs [w0, w1, w2, w3, w4, w5, w6, w7, w8, w9, w10, w11, w12, w13, w14, w15]) r"
| "sha_blocks hs r = hs"

definition bytes_of_w32 :: "nat \<Rightarrow> nat list" where
  "bytes_of_w32 x =
     [(x div 16777216) mod 256, (x div 65536) mod 256, (x div 256) mod 256, x mod 256]"

definition bytes_of_w64 :: "nat \<Rightarrow> nat list" where
  "bytes_of_w64 x = bytes_of_w32 (x div 4294967296) @ bytes_of_w32 (x mod 4294967296)"

definition pad256 :: "nat list \<Rightarrow> nat list" where
  "pad256 m =
     m @ [128] @ replicate ((119 - length m mod 64) mod 64) 0 @ bytes_of_w64 (8 * length m)"

definition sha256 :: "nat list \<Rightarrow> nat list" where
  "sha256 m = concat (map bytes_of_w32 (sha_blocks H0 (be32 (pad256 m))))"

definition hmac_key :: "nat list \<Rightarrow> nat list" where
  "hmac_key key =
     (let k0 = (if 64 < length key then sha256 key else key)
      in k0 @ replicate (64 - length k0) 0)"

definition hmac_sha256 :: "nat list \<Rightarrow> nat list \<Rightarrow> nat list" where
  "hmac_sha256 key m =
     sha256 (map (\<lambda>b. b XOR 92) (hmac_key key) @
             sha256 (map (\<lambda>b. b XOR 54) (hmac_key key) @ m))"

definition hexdigit :: "nat \<Rightarrow> char" where
  "hexdigit n = ''0123456789abcdef'' ! n"

definition hex :: "nat list \<Rightarrow> string" where
  "hex bs = concat (map (\<lambda>b. [hexdigit (b div 16), hexdigit (b mod 16)]) bs)"

definition utf8 :: "string \<Rightarrow> nat list" where
  "utf8 s = map of_char s"

definition hmac_sha256_hex :: "string \<Rightarrow> string \<Rightarrow> string" where
  "hmac_sha256_hex key data = hex (hmac_sha256 (utf8 key) (utf8 data))"

text \<open>The primitive as the runtime offers it; on strings it does not throw.\<close>

definition crypto_createHmac_sha256_hex :: "string \<Rightarrow> string \<Rightarrow> exn + string" where
  "crypto_createHmac_sha256_hex key data = Inr (hmac_sha256_hex key data)"

subsection \<open>The processor (\<^verbatim>\<open>services/webhookProcessor.ts\<close>)\<close>












subsection \<open>The handler (\<^verbatim>\<open>controllers/webhookController.ts\<close>)\<close>














subsection \<open>Vocabulary of the specification\<close>

text \<open>A rejecting verdict with the given reason text.\<close>

definition rejected :: "string \<Rightarrow> WebhookVerificationResult" where
  "rejected reason = \<lparr>isValid = False, error = Some reason, timestamp' = None\<rparr>"

text \<open>The second check of the verifier on its own: the digest was computed and the supplied
  signature is that digest.\<close>

definition signatureMatches ::
  "runtime \<Rightarrow> YaYaWebhookPayload \<Rightarrow> string option \<Rightarrow> WebhookConfig \<Rightarrow> bool" where
  "signatureMatches rt payload signature config =
     (case generateSignature rt payload (secret config) of
        Inl e \<Rightarrow> False
      | Inr expectedSignature \<Rightarrow> signature = Some expectedSignature)"

text \<open>The reason taxonomy of the specification, read off the error texts of the code.\<close>

datatype reason = UntrustedIp | InvalidSignature | TimestampOutOfRange | InternalFault

definition reason_of :: "string \<Rightarrow> reason option" where
  "reason_of e =
     (if e = ''Untrusted IP address'' then Some UntrustedIp
      else if e = ''Invalid signature'' then Some InvalidSignature
      else if prefix ''Timestamp too old. '' e then Some TimestampOutOfRange
      else if e = ''Verification failed'' then Some InternalFault
      else None)"


text \<open>Lowercase hexadecimal digits, and the uppercase rendering of a string.\<close>

definition is_lower_hex :: "char \<Rightarrow> bool" where
  "is_lower_hex c = (c \<in> set ''0123456789abcdef'')"

definition upper :: "char \<Rightarrow> char" where
  "upper c =
     (case map_of (zip ''abcdefghijklmnopqrstuvwxyz'' ''ABCDEFGHIJKLMNOPQRSTUVWXYZ'') c of
        None \<Rightarrow> c
      | Some u \<Rightarrow> u)"

definition toUpperCase :: "string \<Rightarrow> string" where
  "toUpperCase s = map upper s"



text \<open>The scenario of the specification: its payload at a given timestamp, its secret.\<close>

definition example_payload :: "int \<Rightarrow> YaYaWebhookPayload" where
  "example_payload t = \<lparr>
     id' = ''1dd2854e-3a79-4548-ae36-97e4a18ebf81'',
     amount = 100,
     currency = ''ETB'',
     created_at_time = 1673381836,
     timestamp = t,
     cause = ''Testing'',
     full_name = ''Abebe Kebede'',
     account_name = ''abebekebede1'',
     invoice_url = ''https://yayawallet.com/en/invoice/xxxx''\<rparr>"

definition example_config :: "string list \<Rightarrow> WebhookConfig" where
  "example_config ips = \<lparr>secret = ''s3cr3t'', timestampTolerance = 300000, trustedIps = ips\<rparr>"

definition node :: "string \<Rightarrow> int \<Rightarrow> runtime" where
  "node env now = \<lparr>NODE_ENV = Some env, Date_now = now,
                   createHmac_sha256_hex = crypto_createHmac_sha256_hex\<rparr>"

text \<open>A runtime whose digest primitive throws.\<close>

definition broken_crypto :: "string \<Rightarrow> int \<Rightarrow> runtime" where
  "broken_crypto env now =
     (node env now)\<lparr>createHmac_sha256_hex := (\<lambda>key data. Inl (Error ''digest unavailable''))\<rparr>"



section \<open>Properties\<close>

subsection \<open>Decimal rendering and joining\<close>












lemma join_empty_sep: "join [] xs = concat xs"
  by (induction "[] :: string" xs rule: join.induct) simp_all





subsection \<open>The timestamp comparison in integers\<close>

lemma tolerance_compare:
  "((of_int d :: rat) > of_int tol / 1000) \<longleftrightarrow> 1000 * d > tol"
proof -
  have "((of_int tol :: rat) / 1000 < of_int d) \<longleftrightarrow> (of_int tol :: rat) < of_int d * 1000"
    by (simp add: pos_divide_less_eq)
  also have "\<dots> \<longleftrightarrow> (of_int tol :: rat) < of_int (d * 1000)"
    by simp
  also have "\<dots> \<longleftrightarrow> tol < d * 1000"
    by (simp only: of_int_less_iff)
  finally show ?thesis by (simp add: mult.commute)
qed

lemma verifyTimestamp_isValid:
  "isValid (verifyTimestamp rt ts tol) \<longleftrightarrow> 1000 * timeDifference rt ts \<le> tol"
  by (simp add: verifyTimestamp_def tolerance_compare not_less)

subsection \<open>The verifier, check by check\<close>

lemma verifyWebhook_untrusted:
  "\<not> isTrustedIp rt clientIp c \<Longrightarrow> verifyWebhook rt p sig clientIp c = rejected ''Untrusted IP address''"
  by (simp add: verifyWebhook_def verifyWebhook_try_def rejected_def)

lemma verifyWebhook_throws:
  "isTrustedIp rt clientIp c \<Longrightarrow> generateSignature rt p (secret c) = Inl e \<Longrightarrow>
   verifyWebhook rt p sig clientIp c = rejected ''Verification failed''"
  by (simp add: verifyWebhook_def verifyWebhook_try_def rejected_def)

lemma verifyWebhook_bad_signature:
  "isTrustedIp rt clientIp c \<Longrightarrow> generateSignature rt p (secret c) = Inr d \<Longrightarrow> sig \<noteq> Some d \<Longrightarrow>
   verifyWebhook rt p sig clientIp c = rejected ''Invalid signature''"
  by (simp add: verifyWebhook_def verifyWebhook_try_def rejected_def)

lemma verifyWebhook_bad_timestamp:
  "isTrustedIp rt clientIp c \<Longrightarrow> signatureMatches rt p sig c \<Longrightarrow>
   \<not> isValid (verifyTimestamp rt (timestamp p) (timestampTolerance c)) \<Longrightarrow>
   verifyWebhook rt p sig clientIp c =
     \<lparr>isValid = False, error = error (verifyTimestamp rt (timestamp p) (timestampTolerance c)),
      timestamp' = None\<rparr>"
  by (auto simp: verifyWebhook_def verifyWebhook_try_def signatureMatches_def Let_def
           split: sum.splits)

lemma verifyWebhook_accepts:
  "isTrustedIp rt clientIp c \<Longrightarrow> signatureMatches rt p sig c \<Longrightarrow>
   isValid (verifyTimestamp rt (timestamp p) (timestampTolerance c)) \<Longrightarrow>
   verifyWebhook rt p sig clientIp c =
     \<lparr>isValid = True, error = None, timestamp' = Some (timestamp p)\<rparr>"
  by (auto simp: verifyWebhook_def verifyWebhook_try_def signatureMatches_def Let_def
           split: sum.splits)

lemma verifyWebhook_isValid:
  "isValid (verifyWebhook rt p sig clientIp c) \<longleftrightarrow>
     isTrustedIp rt clientIp c \<and> signatureMatches rt p sig c \<and>
     isValid (verifyTimestamp rt (timestamp p) (timestampTolerance c))"
  by (auto simp: verifyWebhook_def verifyWebhook_try_def signatureMatches_def Let_def
           split: sum.splits)

subsection \<open>Shape of the digest, processor and handler\<close>

lemma list8:
  "length s = 8 \<Longrightarrow> \<exists>a b c d e f g h. s = [a, b, c, d, e, f, g, h]"
  by (auto simp: numeral_eq_Suc length_Suc_conv)

lemma length_round256: "length s = 8 \<Longrightarrow> length (round256 k w s) = 8"
  by (drule list8) auto

lemma length_rounds: "length s = 8 \<Longrightarrow> length (rounds ks s w) = 8"
  by (induction ks s w rule: rounds.induct) (simp_all add: length_round256)

lemma length_compress: "length hs = 8 \<Longrightarrow> length (compress hs blk) = 8"
  by (simp add: compress_def length_rounds)

lemma length_sha_blocks: "length hs = 8 \<Longrightarrow> length (sha_blocks hs ws) = 8"
  by (induction hs ws rule: sha_blocks.induct) (simp_all add: length_compress)

lemma length_concat_bytes: "length (concat (map bytes_of_w32 xs)) = 4 * length xs"
  by (induction xs) (simp_all add: bytes_of_w32_def)

lemma bytes_concat_bytes: "list_all (\<lambda>b. b < 256) (concat (map bytes_of_w32 xs))"
  by (induction xs) (simp_all add: bytes_of_w32_def)

lemma length_sha256: "length (sha256 m) = 32"
  by (simp add: sha256_def length_concat_bytes length_sha_blocks H0_def)

lemma bytes_sha256: "list_all (\<lambda>b. b < 256) (sha256 m)"
  by (simp add: sha256_def bytes_concat_bytes)

lemma hexdigit_lower_hex: "n < 16 \<Longrightarrow> is_lower_hex (hexdigit n)"
  by (auto simp: numeral_eq_Suc less_Suc_eq is_lower_hex_def hexdigit_def)

lemma length_hex: "length (hex bs) = 2 * length bs"
  by (induction bs) (simp_all add: hex_def)

lemma hex_lower_hex: "list_all (\<lambda>b. b < 256) bs \<Longrightarrow> list_all is_lower_hex (hex bs)"
proof (induction bs)
  case Nil
  then show ?case by (simp add: hex_def)
next
  case (Cons b bs)
  then have "b div 16 < 16" "b mod 16 < 16"
    by (simp_all add: less_mult_imp_div_less)
  with Cons show ?case
    by (simp add: hex_def hexdigit_lower_hex)
qed

lemma hmac_sha256_hex_shape:
  "length (hmac_sha256_hex key data) = 64 \<and> list_all is_lower_hex (hmac_sha256_hex key data)"
  by (simp add: hmac_sha256_hex_def hmac_sha256_def length_hex length_sha256 hex_lower_hex
        bytes_sha256)

lemma upper_lower_letter:
  "c \<in> set ''abcdef'' \<Longrightarrow> upper c \<noteq> c"
  by (auto simp: upper_def)

lemma toUpperCase_changes:
  "list_ex (\<lambda>c. c \<in> set ''abcdef'') s \<Longrightarrow> toUpperCase s \<noteq> s"
proof
  assume ex: "list_ex (\<lambda>c. c \<in> set ''abcdef'') s" and eq: "toUpperCase s = s"
  from ex obtain c where c: "c \<in> set s" "c \<in> set ''abcdef''"
    by (auto simp: list_ex_iff)
  from eq have "map upper s = map (\<lambda>x. x) s" by (simp add: toUpperCase_def)
  then have "upper c = c" using c(1) by (simp only: map_eq_conv)
  with upper_lower_letter [OF c(2)] show False by simp
qed






subsection \<open>Evaluating the digest of the scenario\<close>

text \<open>The compression function is evaluated by rewriting with the structural rules for
  binary numerals, one lemma for each block and with every chaining value stated; the
  digests are those of the standard's test vector and of the two payloads of the scenario.\<close>

lemma rotr_eval:
  "rotr 2 x = drop_bit 2 x + push_bit 30 (take_bit 2 x)"
  "rotr 13 x = drop_bit 13 x + push_bit 19 (take_bit 13 x)"
  "rotr 22 x = drop_bit 22 x + push_bit 10 (take_bit 22 x)"
  "rotr 6 x = drop_bit 6 x + push_bit 26 (take_bit 6 x)"
  "rotr 11 x = drop_bit 11 x + push_bit 21 (take_bit 11 x)"
  "rotr 25 x = drop_bit 25 x + push_bit 7 (take_bit 25 x)"
  "rotr 7 x = drop_bit 7 x + push_bit 25 (take_bit 7 x)"
  "rotr 18 x = drop_bit 18 x + push_bit 14 (take_bit 18 x)"
  "rotr 17 x = drop_bit 17 x + push_bit 15 (take_bit 17 x)"
  "rotr 19 x = drop_bit 19 x + push_bit 13 (take_bit 19 x)"
  by (simp_all add: rotr_def)

lemma zero_eval:
  "(0::nat) + x = x" "x + (0::nat) = x"
  "(0::nat) XOR x = x" "x XOR (0::nat) = x"
  "(0::nat) AND x = 0" "x AND (0::nat) = 0"
  "take_bit n (0::nat) = 0" "drop_bit n (0::nat) = 0" "push_bit n (0::nat) = 0"
  by simp_all

lemma one_eval:
  "drop_bit (numeral l) (numeral num.One :: nat) = 0"
  "drop_bit 0 (x::nat) = x"
  "push_bit 0 (x::nat) = x"
  by simp_all

lemmas sha_eval =
  compress_def K256_def rounds.simps round256.simps shift_vars.simps next_w.simps
  T1_def T2_def Sigma0_def Sigma1_def sigma0_def sigma1_def Ch_def Maj_def add32_def rotr_eval
  append.simps list.map zip_Cons_Cons zip_Nil prod.case
  numeral_plus_numeral add_num_simps
  numeral_xor_num xor_num.simps numeral_and_num and_num.simps option.case option.map
  take_bit_numeral_numeral take_bit_num_simps pred_numeral_simps BitM.simps
  drop_bit_numeral_bit0 drop_bit_numeral_bit1 push_bit_numeral
  zero_eval one_eval

lemma replicate_num: "replicate (numeral n) x = x # replicate (pred_numeral n) x"
  by (simp add: numeral_eq_Suc)

lemma csp_example:
  "createSignedPayload (example_payload t) =
     ''1dd2854e-3a79-4548-ae36-97e4a18ebf81100ETB1673381836'' @ toString t @
     ''TestingAbebe Kebedeabebekebede1https://yayawallet.com/en/invoice/xxxx''"
  by (simp add: createSignedPayload_def example_payload_def toString_def nat_toString.simps
        digit_def)

text \<open>Test case 2 of RFC 4231.\<close>

lemma key_rfc4231:
  "hmac_key (utf8 ''Jefe'') =
    [74, 101, 102, 101, 0, 0, 0, 0, 0, 0, 0, 0, 0, 0, 0, 0,
     0, 0, 0, 0, 0, 0, 0, 0, 0, 0, 0, 0, 0, 0, 0, 0,
     0, 0, 0, 0, 0, 0, 0, 0, 0, 0, 0, 0, 0, 0, 0, 0,
     0, 0, 0, 0, 0, 0, 0, 0, 0, 0, 0, 0, 0, 0, 0, 0]"
  by (simp add: hmac_key_def utf8_def replicate_num)

lemma ipad_rfc4231:
  "map (\<lambda>b. b XOR 54) (hmac_key (utf8 ''Jefe'')) =
    [124, 83, 80, 83, 54, 54, 54, 54, 54, 54, 54, 54, 54, 54, 54, 54,
     54, 54, 54, 54, 54, 54, 54, 54, 54, 54, 54, 54, 54, 54, 54, 54,
     54, 54, 54, 54, 54, 54, 54, 54, 54, 54, 54, 54, 54, 54, 54, 54,
     54, 54, 54, 54, 54, 54, 54, 54, 54, 54, 54, 54, 54, 54, 54, 54]"
  by (simp add: key_rfc4231)

lemma opad_rfc4231:
  "map (\<lambda>b. b XOR 92) (hmac_key (utf8 ''Jefe'')) =
    [22, 57, 58, 57, 92, 92, 92, 92, 92, 92, 92, 92, 92, 92, 92, 92,
     92, 92, 92, 92, 92, 92, 92, 92, 92, 92, 92, 92, 92, 92, 92, 92,
     92, 92, 92, 92, 92, 92, 92, 92, 92, 92, 92, 92, 92, 92, 92, 92,
     92, 92, 92, 92, 92, 92, 92, 92, 92, 92, 92, 92, 92, 92, 92, 92]"
  by (simp add: key_rfc4231)

lemma words_inner_rfc4231_case2:
  "be32 (pad256 ([124, 83, 80, 83, 54, 54, 54, 54, 54, 54, 54, 54, 54, 54, 54, 54,
     54, 54, 54, 54, 54, 54, 54, 54, 54, 54, 54, 54, 54, 54, 54, 54,
     54, 54, 54, 54, 54, 54, 54, 54, 54, 54, 54, 54, 54, 54, 54, 54,
     54, 54, 54, 54, 54, 54, 54, 54, 54, 54, 54, 54, 54, 54, 54, 54] @ utf8 ''what do ya want for nothing?'')) =
    [2085834835, 909522486, 909522486, 909522486,
     909522486, 909522486, 909522486, 909522486,
     909522486, 909522486, 909522486, 909522486,
     909522486, 909522486, 909522486, 909522486,
     2003329396, 543452960, 2036408439, 1634628640,
     1718579744, 1852798056, 1768843071, 2147483648,
     0, 0, 0, 0,
     0, 0, 0, 736]"
  by (simp add: pad256_def utf8_def bytes_of_w64_def bytes_of_w32_def replicate_num)

lemma compress_inner_rfc4231_case2_0:
  "compress H0
     [2085834835, 909522486, 909522486, 909522486,
      909522486, 909522486, 909522486, 909522486,
      909522486, 909522486, 909522486, 909522486,
      909522486, 909522486, 909522486, 909522486] =
   [1700636666, 3426962231, 1511839179, 110292494,
    2759467987, 1278932041, 3684834018, 2026328076]"
  by (simp only: H0_def sha_eval)

lemma compress_inner_rfc4231_case2_1:
  "compress 
    [1700636666, 3426962231, 1511839179, 110292494,
       2759467987, 1278932041, 3684834018, 2026328076]
     [2003329396, 543452960, 2036408439, 1634628640,
      1718579744, 1852798056, 1768843071, 2147483648,
      0, 0, 0, 0,
      0, 0, 0, 736] =
   [2732885382, 1026030040, 1689030016, 607298029,
    1199410252, 1865719062, 3571968279, 3324627671]"
  by (simp only: H0_def sha_eval)

lemma sha256_inner_rfc4231_case2:
  "sha256 ([124, 83, 80, 83, 54, 54, 54, 54, 54, 54, 54, 54, 54, 54, 54, 54,
     54, 54, 54, 54, 54, 54, 54, 54, 54, 54, 54, 54, 54, 54, 54, 54,
     54, 54, 54, 54, 54, 54, 54, 54, 54, 54, 54, 54, 54, 54, 54, 54,
     54, 54, 54, 54, 54, 54, 54, 54, 54, 54, 54, 54, 54, 54, 54, 54] @ utf8 ''what do ya want for nothing?'') =
    [162, 228, 133, 134, 61, 39, 249, 216,
     100, 172, 141, 128, 36, 50, 161, 237,
     71, 125, 140, 76, 111, 52, 157, 22,
     212, 231, 233, 23, 198, 41, 202, 215]"
  by (simp only: sha256_def words_inner_rfc4231_case2) (simp add: compress_inner_rfc4231_case2_0 compress_inner_rfc4231_case2_1 bytes_of_w32_def)

lemma words_outer_rfc4231_case2:
  "be32 (pad256 ([22, 57, 58, 57, 92, 92, 92, 92, 92, 92, 92, 92, 92, 92, 92, 92,
     92, 92, 92, 92, 92, 92, 92, 92, 92, 92, 92, 92, 92, 92, 92, 92,
     92, 92, 92, 92, 92, 92, 92, 92, 92, 92, 92, 92, 92, 92, 92, 92,
     92, 92, 92, 92, 92, 92, 92, 92, 92, 92, 92, 92, 92, 92, 92, 92] @ [162, 228, 133, 134, 61, 39, 249, 216,
     100, 172, 141, 128, 36, 50, 161, 237,
     71, 125, 140, 76, 111, 52, 157, 22,
     212, 231, 233, 23, 198, 41, 202, 215])) =
    [372849209, 1549556828, 1549556828, 1549556828,
     1549556828, 1549556828, 1549556828, 1549556828,
     1549556828, 1549556828, 1549556828, 1549556828,
     1549556828, 1549556828, 1549556828, 1549556828,
     2732885382, 1026030040, 1689030016, 607298029,
     1199410252, 1865719062, 3571968279, 3324627671,
     2147483648, 0, 0, 0,
     0, 0, 0, 768]"
  by (simp add: pad256_def utf8_def bytes_of_w64_def bytes_of_w32_def replicate_num)

lemma compress_outer_rfc4231_case2_0:
  "compress H0
     [372849209, 1549556828, 1549556828, 1549556828,
      1549556828, 1549556828, 1549556828, 1549556828,
      1549556828, 1549556828, 1549556828, 1549556828,
      1549556828, 1549556828, 1549556828, 1549556828] =
   [246408149, 323038828, 1785343979, 758602444,
    1369767239, 1840289256, 599761290, 1391542741]"
  by (simp only: H0_def sha_eval)

lemma compress_outer_rfc4231_case2_1:
  "compress 
    [246408149, 323038828, 1785343979, 758602444,
       1369767239, 1840289256, 599761290, 1391542741]
     [2732885382, 1026030040, 1689030016, 607298029,
      1199410252, 1865719062, 3571968279, 3324627671,
      2147483648, 0, 0, 0,
      0, 0, 0, 768] =
   [1541194054, 3210769742, 1778656294, 144012743,
    1509965576, 2636593539, 2649512121, 1693202499]"
  by (simp only: H0_def sha_eval)

lemma sha256_outer_rfc4231_case2:
  "sha256 ([22, 57, 58, 57, 92, 92, 92, 92, 92, 92, 92, 92, 92, 92, 92, 92,
     92, 92, 92, 92, 92, 92, 92, 92, 92, 92, 92, 92, 92, 92, 92, 92,
     92, 92, 92, 92, 92, 92, 92, 92, 92, 92, 92, 92, 92, 92, 92, 92,
     92, 92, 92, 92, 92, 92, 92, 92, 92, 92, 92, 92, 92, 92, 92, 92] @ [162, 228, 133, 134, 61, 39, 249, 216,
     100, 172, 141, 128, 36, 50, 161, 237,
     71, 125, 140, 76, 111, 52, 157, 22,
     212, 231, 233, 23, 198, 41, 202, 215]) =
    [91, 220, 193, 70, 191, 96, 117, 78,
     106, 4, 36, 38, 8, 149, 117, 199,
     90, 0, 63, 8, 157, 39, 57, 131,
     157, 236, 88, 185, 100, 236, 56, 67]"
  by (simp only: sha256_def words_outer_rfc4231_case2) (simp add: compress_outer_rfc4231_case2_0 compress_outer_rfc4231_case2_1 bytes_of_w32_def)

lemma hmac_rfc4231_case2:
  "hmac_sha256_hex ''Jefe''
     ''what do ya want for nothing?'' =
   ''5bdcc146bf60754e6a042426089575c75a003f089d2739839dec58b964ec3843''"
  by (simp only: hmac_sha256_hex_def hmac_sha256_def ipad_rfc4231 opad_rfc4231
        sha256_inner_rfc4231_case2 sha256_outer_rfc4231_case2)
     (simp add: hex_def hexdigit_def)

text \<open>The scenario, and the scenario with the last character of the invoice URL changed.\<close>

lemma key_example:
  "hmac_key (utf8 ''s3cr3t'') =
    [115, 51, 99, 114, 51, 116, 0, 0, 0, 0, 0, 0, 0, 0, 0, 0,
     0, 0, 0, 0, 0, 0, 0, 0, 0, 0, 0, 0, 0, 0, 0, 0,
     0, 0, 0, 0, 0, 0, 0, 0, 0, 0, 0, 0, 0, 0, 0, 0,
     0, 0, 0, 0, 0, 0, 0, 0, 0, 0, 0, 0, 0, 0, 0, 0]"
  by (simp add: hmac_key_def utf8_def replicate_num)

lemma ipad_example:
  "map (\<lambda>b. b XOR 54) (hmac_key (utf8 ''s3cr3t'')) =
    [69, 5, 85, 68, 5, 66, 54, 54, 54, 54, 54, 54, 54, 54, 54, 54,
     54, 54, 54, 54, 54, 54, 54, 54, 54, 54, 54, 54, 54, 54, 54, 54,
     54, 54, 54, 54, 54, 54, 54, 54, 54, 54, 54, 54, 54, 54, 54, 54,
     54, 54, 54, 54, 54, 54, 54, 54, 54, 54, 54, 54, 54, 54, 54, 54]"
  by (simp add: key_example)

lemma opad_example:
  "map (\<lambda>b. b XOR 92) (hmac_key (utf8 ''s3cr3t'')) =
    [47, 111, 63, 46, 111, 40, 92, 92, 92, 92, 92, 92, 92, 92, 92, 92,
     92, 92, 92, 92, 92, 92, 92, 92, 92, 92, 92, 92, 92, 92, 92, 92,
     92, 92, 92, 92, 92, 92, 92, 92, 92, 92, 92, 92, 92, 92, 92, 92,
     92, 92, 92, 92, 92, 92, 92, 92, 92, 92, 92, 92, 92, 92, 92, 92]"
  by (simp add: key_example)

lemma words_inner_example_p:
  "be32 (pad256 ([69, 5, 85, 68, 5, 66, 54, 54, 54, 54, 54, 54, 54, 54, 54, 54,
     54, 54, 54, 54, 54, 54, 54, 54, 54, 54, 54, 54, 54, 54, 54, 54,
     54, 54, 54, 54, 54, 54, 54, 54, 54, 54, 54, 54, 54, 54, 54, 54,
     54, 54, 54, 54, 54, 54, 54, 54, 54, 54, 54, 54, 54, 54, 54, 54] @ utf8 ''1dd2854e-3a79-4548-ae36-97e4a18ebf81100ETB16733818361673382000TestingAbebe Kebedeabebekebede1https://yayawallet.com/en/invoice/xxxx'')) =
    [1157977412, 88225334, 909522486, 909522486,
     909522486, 909522486, 909522486, 909522486,
     909522486, 909522486, 909522486, 909522486,
     909522486, 909522486, 909522486, 909522486,
     828662834, 943010917, 758341943, 959263797,
     876096865, 1697855021, 959931700, 1630615653,
     1650866225, 825241669, 1413624118, 926102328,
     825766710, 825636659, 859320880, 808473701,
     1937009006, 1732338277, 1650794571, 1700947300,
     1700880997, 1650813797, 1650812005, 828929140,
     1886599727, 796483961, 1635213676, 1818588206,
     1668246831, 1701719913, 1853255529, 1667575672,
     2021161088, 0, 0, 0,
     0, 0, 0, 0,
     0, 0, 0, 0,
     0, 0, 0, 1560]"
  by (simp add: pad256_def utf8_def bytes_of_w64_def bytes_of_w32_def replicate_num)

lemma compress_inner_example_p_0:
  "compress H0
     [1157977412, 88225334, 909522486, 909522486,
      909522486, 909522486, 909522486, 909522486,
      909522486, 909522486, 909522486, 909522486,
      909522486, 909522486, 909522486, 909522486] =
   [3111598974, 3976842588, 1019883392, 174413470,
    3590892622, 3838042546, 1437600749, 3879213132]"
  by (simp only: H0_def sha_eval)

lemma compress_inner_example_p_1:
  "compress 
    [3111598974, 3976842588, 1019883392, 174413470,
       3590892622, 3838042546, 1437600749, 3879213132]
     [828662834, 943010917, 758341943, 959263797,
      876096865, 1697855021, 959931700, 1630615653,
      1650866225, 825241669, 1413624118, 926102328,
      825766710, 825636659, 859320880, 808473701] =
   [2429506051, 4220800006, 3992004248, 440760500,
    129422383, 3378239117, 1248012747, 3177702719]"
  by (simp only: H0_def sha_eval)

lemma compress_inner_example_p_2:
  "compress 
    [2429506051, 4220800006, 3992004248, 440760500,
       129422383, 3378239117, 1248012747, 3177702719]
     [1937009006, 1732338277, 1650794571, 1700947300,
      1700880997, 1650813797, 1650812005, 828929140,
      1886599727, 796483961, 1635213676, 1818588206,
      1668246831, 1701719913, 1853255529, 1667575672] =
   [2143081049, 835939295, 2789019077, 4173498034,
    1129682166, 3031040414, 180780777, 2247329929]"
  by (simp only: H0_def sha_eval)

lemma compress_inner_example_p_3:
  "compress 
    [2143081049, 835939295, 2789019077, 4173498034,
       1129682166, 3031040414, 180780777, 2247329929]
     [2021161088, 0, 0, 0,
      0, 0, 0, 0,
      0, 0, 0, 0,
      0, 0, 0, 1560] =
   [24660716, 2283827596, 391568399, 3173981012,
    3472166486, 2289037895, 1276033740, 3374222075]"
  by (simp only: H0_def sha_eval)

lemma sha256_inner_example_p:
  "sha256 ([69, 5, 85, 68, 5, 66, 54, 54, 54, 54, 54, 54, 54, 54, 54, 54,
     54, 54, 54, 54, 54, 54, 54, 54, 54, 54, 54, 54, 54, 54, 54, 54,
     54, 54, 54, 54, 54, 54, 54, 54, 54, 54, 54, 54, 54, 54, 54, 54,
     54, 54, 54, 54, 54, 54, 54, 54, 54, 54, 54, 54, 54, 54, 54, 54] @ utf8 ''1dd2854e-3a79-4548-ae36-97e4a18ebf81100ETB16733818361673382000TestingAbebe Kebedeabebekebede1https://yayawallet.com/en/invoice/xxxx'') =
    [1, 120, 74, 236, 136, 32, 113, 140,
     23, 86, 220, 15, 189, 47, 27, 84,
     206, 245, 14, 86, 136, 111, 242, 71,
     76, 14, 186, 204, 201, 30, 138, 251]"
  by (simp only: sha256_def words_inner_example_p) (simp add: compress_inner_example_p_0 compress_inner_example_p_1 compress_inner_example_p_2 compress_inner_example_p_3 bytes_of_w32_def)

lemma words_outer_example_p:
  "be32 (pad256 ([47, 111, 63, 46, 111, 40, 92, 92, 92, 92, 92, 92, 92, 92, 92, 92,
     92, 92, 92, 92, 92, 92, 92, 92, 92, 92, 92, 92, 92, 92, 92, 92,
     92, 92, 92, 92, 92, 92, 92, 92, 92, 92, 92, 92, 92, 92, 92, 92,
     92, 92, 92, 92, 92, 92, 92, 92, 92, 92, 92, 92, 92, 92, 92, 92] @ [1, 120, 74, 236, 136, 32, 113, 140,
     23, 86, 220, 15, 189, 47, 27, 84,
     206, 245, 14, 86, 136, 111, 242, 71,
     76, 14, 186, 204, 201, 30, 138, 251])) =
    [795819822, 1864916060, 1549556828, 1549556828,
     1549556828, 1549556828, 1549556828, 1549556828,
     1549556828, 1549556828, 1549556828, 1549556828,
     1549556828, 1549556828, 1549556828, 1549556828,
     24660716, 2283827596, 391568399, 3173981012,
     3472166486, 2289037895, 1276033740, 3374222075,
     2147483648, 0, 0, 0,
     0, 0, 0, 768]"
  by (simp add: pad256_def utf8_def bytes_of_w64_def bytes_of_w32_def replicate_num)

lemma compress_outer_example_p_0:
  "compress H0
     [795819822, 1864916060, 1549556828, 1549556828,
      1549556828, 1549556828, 1549556828, 1549556828,
      1549556828, 1549556828, 1549556828, 1549556828,
      1549556828, 1549556828, 1549556828, 1549556828] =
   [474802667, 141276547, 4268463918, 3672333871,
    619219900, 2435688101, 284456330, 3074579727]"
  by (simp only: H0_def sha_eval)

lemma compress_outer_example_p_1:
  "compress 
    [474802667, 141276547, 4268463918, 3672333871,
       619219900, 2435688101, 284456330, 3074579727]
     [24660716, 2283827596, 391568399, 3173981012,
      3472166486, 2289037895, 1276033740, 3374222075,
      2147483648, 0, 0, 0,
      0, 0, 0, 768] =
   [4097557000, 1299322739, 465122186, 902740563,
    3384428120, 1379327055, 384983595, 2797316804]"
  by (simp only: H0_def sha_eval)

lemma sha256_outer_example_p:
  "sha256 ([47, 111, 63, 46, 111, 40, 92, 92, 92, 92, 92, 92, 92, 92, 92, 92,
     92, 92, 92, 92, 92, 92, 92, 92, 92, 92, 92, 92, 92, 92, 92, 92,
     92, 92, 92, 92, 92, 92, 92, 92, 92, 92, 92, 92, 92, 92, 92, 92,
     92, 92, 92, 92, 92, 92, 92, 92, 92, 92, 92, 92, 92, 92, 92, 92] @ [1, 120, 74, 236, 136, 32, 113, 140,
     23, 86, 220, 15, 189, 47, 27, 84,
     206, 245, 14, 86, 136, 111, 242, 71,
     76, 14, 186, 204, 201, 30, 138, 251]) =
    [244, 59, 194, 8, 77, 114, 23, 115,
     27, 185, 51, 138, 53, 206, 186, 83,
     201, 186, 70, 88, 82, 54, 220, 79,
     22, 242, 98, 43, 166, 187, 170, 196]"
  by (simp only: sha256_def words_outer_example_p) (simp add: compress_outer_example_p_0 compress_outer_example_p_1 bytes_of_w32_def)

lemma hmac_example_p:
  "hmac_sha256_hex ''s3cr3t''
     ''1dd2854e-3a79-4548-ae36-97e4a18ebf81100ETB16733818361673382000TestingAbebe Kebedeabebekebede1https://yayawallet.com/en/invoice/xxxx'' =
   ''f43bc2084d7217731bb9338a35ceba53c9ba46585236dc4f16f2622ba6bbaac4''"
  by (simp only: hmac_sha256_hex_def hmac_sha256_def ipad_example opad_example
        sha256_inner_example_p sha256_outer_example_p)
     (simp add: hex_def hexdigit_def)








subsection \<open>The scenario\<close>


lemma csp_p:
  "createSignedPayload (example_payload 1673382000) =
     ''1dd2854e-3a79-4548-ae36-97e4a18ebf81100ETB16733818361673382000TestingAbebe Kebedeabebekebede1https://yayawallet.com/en/invoice/xxxx''"
  by (simp add: csp_example toString_def nat_toString.simps digit_def)

lemma signature_p:
  "generateSignature (node env now) (example_payload 1673382000) ''s3cr3t'' =
     Inr ''f43bc2084d7217731bb9338a35ceba53c9ba46585236dc4f16f2622ba6bbaac4''"
  by (simp add: generateSignature_def node_def crypto_createHmac_sha256_hex_def csp_p
        hmac_example_p)

lemma eval_300000: "toString_div_1000 300000 = ''300''"
  by (simp add: toString_div_1000_def nat_toString.simps digit_def)

lemma trusted_example:
  "isTrustedIp (node env now) ''10.0.0.1'' (example_config [''10.0.0.1''])"
  "\<not> isTrustedIp (node ''production'' now) ''203.0.113.7'' (example_config [''10.0.0.1''])"
  "\<not> isTrustedIp (node ''production'' now) ''::1'' (example_config [])"
  "isTrustedIp (node ''development'' now) ''::1'' (example_config [])"
  by (simp_all add: isTrustedIp_def node_def example_config_def)

lemma example_fields:
  "secret (example_config ips) = ''s3cr3t''"
  "timestampTolerance (example_config ips) = 300000"
  "trustedIps (example_config ips) = ips"
  "timestamp (example_payload t) = t"
  "id' (example_payload t) = ''1dd2854e-3a79-4548-ae36-97e4a18ebf81''"
  by (simp_all add: example_config_def example_payload_def)

lemma matches_p:
  "signatureMatches (node env now) (example_payload 1673382000)
     (Some ''f43bc2084d7217731bb9338a35ceba53c9ba46585236dc4f16f2622ba6bbaac4'')
     (example_config ips)"
  by (simp add: signatureMatches_def example_fields signature_p)

lemma fresh_example:
  "verifyTimestamp (node env 1673382012345) 1673382000 300000 =
     \<lparr>isValid = True, error = None, timestamp' = None\<rparr>"
  by (simp add: verifyTimestamp_def tolerance_compare timeDifference_def currentTime_def
        node_def)

lemma stale_example:
  "verifyTimestamp (node env 1673390000999) 1673382000 300000 =
     rejected ''Timestamp too old. Difference: 8000s, Tolerance: 300s''"
  by (simp add: verifyTimestamp_def tolerance_compare timeDifference_def currentTime_def
        node_def rejected_def eval_300000 toString_def nat_toString.simps digit_def)


lemma real_crypto: "createHmac_sha256_hex (node env now) = crypto_createHmac_sha256_hex"
  by (simp add: node_def)

lemma generateSignature_crypto:
  "createHmac_sha256_hex rt = crypto_createHmac_sha256_hex \<Longrightarrow>
   generateSignature rt payload key = Inr (hmac_sha256_hex key (createSignedPayload payload))"
  by (simp add: generateSignature_def crypto_createHmac_sha256_hex_def)

lemma reason_of_texts:
  "reason_of ''Untrusted IP address'' = Some UntrustedIp"
  "reason_of ''Invalid signature'' = Some InvalidSignature"
  "reason_of ''Verification failed'' = Some InternalFault"
  "reason_of (''Timestamp too old. Difference: '' @ rest) = Some TimestampOutOfRange"
  by (simp_all add: reason_of_def)

lemma verifyTimestamp_cases:
  "verifyTimestamp rt ts tol = \<lparr>isValid = True, error = None, timestamp' = None\<rparr> \<or>
   (\<exists>rest. verifyTimestamp rt ts tol = rejected (''Timestamp too old. Difference: '' @ rest))"
  by (simp add: verifyTimestamp_def rejected_def)

section \<open>The claims of the specification\<close>

subsection \<open>Canonical serialization\<close>


subsection \<open>Timestamp window\<close>



text \<open>
  Claim C7. The timestamp check depends on the timestamp only through the absolute
  difference from the current time: a timestamp \<open>d\<close> seconds after the current second gets
  the same result as one \<open>d\<close> seconds before it, two timestamps at the same distance get the
  same result, and a timestamp in the future within the tolerance is accepted.
\<close>

theorem timestamp_symmetric:
  "verifyTimestamp rt (currentTime rt + d) tol = verifyTimestamp rt (currentTime rt - d) tol
   \<and> timeDifference rt (currentTime rt + d) = \<bar>d\<bar>
   \<and> timeDifference rt (currentTime rt - d) = \<bar>d\<bar>
   \<and> (timeDifference rt ts = timeDifference rt ts' \<longrightarrow>
        verifyTimestamp rt ts tol = verifyTimestamp rt ts' tol)
   \<and> (0 \<le> d \<and> (of_int d :: rat) \<le> of_int tol / 1000 \<longrightarrow>
        verifyTimestamp rt (currentTime rt + d) tol =
          \<lparr>isValid = True, error = None, timestamp' = None\<rparr>)"
  by (simp add: verifyTimestamp_def timeDifference_def not_less)

theorem timestamp_symmetric_witness:
  "verifyTimestamp (node ''production'' 1673382012345) 1673382312 300000 =
     \<lparr>isValid = True, error = None, timestamp' = None\<rparr>
   \<and> verifyTimestamp (node ''production'' 1673382012345) 1673381712 300000 =
     \<lparr>isValid = True, error = None, timestamp' = None\<rparr>
   \<and> verifyTimestamp (node ''production'' 1673382012345) 1673382313 300000 =
       verifyTimestamp (node ''production'' 1673382012345) 1673381711 300000"
proof -
  have c: "currentTime (node ''production'' 1673382012345) = 1673382012"
    by (simp add: currentTime_def node_def)
  have d: "timeDifference (node ''production'' 1673382012345) 1673382313 = 301"
    "timeDifference (node ''production'' 1673382012345) 1673381711 = 301"
    by (simp_all add: timeDifference_def c)
  show ?thesis
    using timestamp_symmetric [of "node ''production'' 1673382012345" 300 300000 1673382313 1673381711]
    by (auto simp: c d)
qed

subsection \<open>Order of the checks and shape of the verdict\<close>

text \<open>
  Claim C3. The verifier runs the address check, then the signature check, then the
  timestamp check, and the first check that fails decides the verdict: an untrusted
  address is rejected as such whatever the signature and the timestamp are; from a trusted
  address a signature other than the computed digest is rejected as invalid whatever the
  timestamp is (and a digest primitive that throws gives the verdict of the
  \<^verbatim>\<open>catch\<close> block); with both passed, a failing timestamp check gives its own error. The verdict
  is valid exactly when all three checks pass, and it carries an error exactly when it is
  not valid, so one reason at most.
\<close>

theorem check_order:
  "(\<not> isTrustedIp rt clientIp config \<longrightarrow>
      verifyWebhook rt payload signature clientIp config = rejected ''Untrusted IP address'')
   \<and> (isTrustedIp rt clientIp config \<and>
        generateSignature rt payload (secret config) = Inr digest \<and> signature \<noteq> Some digest \<longrightarrow>
      verifyWebhook rt payload signature clientIp config = rejected ''Invalid signature'')
   \<and> (isTrustedIp rt clientIp config \<and> generateSignature rt payload (secret config) = Inl e \<longrightarrow>
      verifyWebhook rt payload signature clientIp config = rejected ''Verification failed'')
   \<and> (isTrustedIp rt clientIp config \<and> signatureMatches rt payload signature config \<and>
        \<not> isValid (verifyTimestamp rt (timestamp payload) (timestampTolerance config)) \<longrightarrow>
      verifyWebhook rt payload signature clientIp config =
        \<lparr>isValid = False,
         error = error (verifyTimestamp rt (timestamp payload) (timestampTolerance config)),
         timestamp' = None\<rparr>)
   \<and> (isValid (verifyWebhook rt payload signature clientIp config) \<longleftrightarrow>
        isTrustedIp rt clientIp config \<and> signatureMatches rt payload signature config \<and>
        isValid (verifyTimestamp rt (timestamp payload) (timestampTolerance config)))
   \<and> (isValid (verifyWebhook rt payload signature clientIp config) \<longleftrightarrow>
        error (verifyWebhook rt payload signature clientIp config) = None)"
proof -
  have "isValid (verifyWebhook rt payload signature clientIp config) \<longleftrightarrow>
        error (verifyWebhook rt payload signature clientIp config) = None"
    by (auto simp: verifyWebhook_def verifyWebhook_try_def verifyTimestamp_def Let_def
          split: sum.splits)
  then show ?thesis
    using verifyWebhook_untrusted [of rt clientIp config payload signature]
      verifyWebhook_bad_signature [of rt clientIp config payload digest signature]
      verifyWebhook_throws [of rt clientIp config payload e signature]
      verifyWebhook_bad_timestamp [of rt clientIp config payload signature]
      verifyWebhook_isValid [of rt payload signature clientIp config]
    by blast
qed

theorem check_order_witness:
  "verifyWebhook (node ''production'' 1673390000999) (example_payload 1673382000)
     None ''203.0.113.7'' (example_config [''10.0.0.1'']) = rejected ''Untrusted IP address''
   \<and> verifyWebhook (node ''production'' 1673390000999) (example_payload 1673382000)
     (Some ''f43bc2084d7217731bb9338a35ceba53c9ba46585236dc4f16f2622ba6bbaac5'')
     ''10.0.0.1'' (example_config [''10.0.0.1'']) = rejected ''Invalid signature''
   \<and> verifyWebhook (node ''production'' 1673390000999) (example_payload 1673382000)
     (Some ''f43bc2084d7217731bb9338a35ceba53c9ba46585236dc4f16f2622ba6bbaac4'')
     ''10.0.0.1'' (example_config [''10.0.0.1'']) =
       rejected ''Timestamp too old. Difference: 8000s, Tolerance: 300s''
   \<and> verifyWebhook (node ''production'' 1673382012345) (example_payload 1673382000)
     (Some ''f43bc2084d7217731bb9338a35ceba53c9ba46585236dc4f16f2622ba6bbaac4'')
     ''10.0.0.1'' (example_config [''10.0.0.1'']) =
       \<lparr>isValid = True, error = None, timestamp' = Some 1673382000\<rparr>
   \<and> verifyWebhook (broken_crypto ''production'' 1673382012345) (example_payload 1673382000)
     (Some ''f43bc2084d7217731bb9338a35ceba53c9ba46585236dc4f16f2622ba6bbaac4'')
     ''10.0.0.1'' (example_config [''10.0.0.1'']) = rejected ''Verification failed''"
proof -
  let ?late = "node ''production'' 1673390000999"
  let ?now = "node ''production'' 1673382012345"
  let ?p = "example_payload 1673382000"
  let ?c = "example_config [''10.0.0.1'']"
  let ?good = "Some ''f43bc2084d7217731bb9338a35ceba53c9ba46585236dc4f16f2622ba6bbaac4''"
  let ?bad = "Some ''f43bc2084d7217731bb9338a35ceba53c9ba46585236dc4f16f2622ba6bbaac5''"
  have a: "verifyWebhook ?late ?p None ''203.0.113.7'' ?c = rejected ''Untrusted IP address''"
    using check_order [where rt = ?late and clientIp = "''203.0.113.7''" and config = ?c
        and payload = ?p and signature = None]
    by (simp add: trusted_example)
  have b: "verifyWebhook ?late ?p ?bad ''10.0.0.1'' ?c = rejected ''Invalid signature''"
    using check_order [where rt = ?late and clientIp = "''10.0.0.1''" and config = ?c
        and payload = ?p and signature = ?bad
        and digest = "''f43bc2084d7217731bb9338a35ceba53c9ba46585236dc4f16f2622ba6bbaac4''"]
    by (simp add: trusted_example example_fields signature_p)
  have c: "verifyWebhook ?late ?p ?good ''10.0.0.1'' ?c =
             rejected ''Timestamp too old. Difference: 8000s, Tolerance: 300s''"
    using check_order [where rt = ?late and clientIp = "''10.0.0.1''" and config = ?c
        and payload = ?p and signature = ?good]
    by (simp add: trusted_example example_fields matches_p stale_example rejected_def)
  have d: "isValid (verifyWebhook ?now ?p ?good ''10.0.0.1'' ?c)"
    using check_order [where rt = ?now and clientIp = "''10.0.0.1''" and config = ?c
        and payload = ?p and signature = ?good]
    by (simp add: trusted_example example_fields matches_p fresh_example)
  have "verifyWebhook ?now ?p ?good ''10.0.0.1'' ?c =
          \<lparr>isValid = True, error = None, timestamp' = Some 1673382000\<rparr>"
    using d verifyWebhook_accepts [of ?now "''10.0.0.1''" ?c ?p ?good]
    by (simp add: trusted_example example_fields matches_p fresh_example)
  moreover
  have "verifyWebhook (broken_crypto ''production'' 1673382012345) ?p ?good ''10.0.0.1'' ?c =
          rejected ''Verification failed''"
    using check_order [where rt = "broken_crypto ''production'' 1673382012345"
        and clientIp = "''10.0.0.1''" and config = ?c and payload = ?p and signature = ?good
        and e = "Error ''digest unavailable''"]
    by (simp add: broken_crypto_def node_def isTrustedIp_def generateSignature_def
          example_fields)
  ultimately show ?thesis
    using a b c by simp
qed

text \<open>
  Claim C6. For every runtime, payload, signature, client address and configuration the
  verifier returns a verdict (an exception of the digest primitive is caught and becomes
  the verdict ``Verification failed''). Either the verdict is valid, has no error and
  echoes the timestamp of the payload, or it is invalid, has no timestamp and has an error
  whose text belongs to the reason taxonomy.
\<close>

theorem verdict_shape:
  "(isValid (verifyWebhook rt payload signature clientIp config)
      \<and> error (verifyWebhook rt payload signature clientIp config) = None
      \<and> timestamp' (verifyWebhook rt payload signature clientIp config) = Some (timestamp payload))
   \<or> (\<not> isValid (verifyWebhook rt payload signature clientIp config)
      \<and> timestamp' (verifyWebhook rt payload signature clientIp config) = None
      \<and> (\<exists>e r. error (verifyWebhook rt payload signature clientIp config) = Some e
                \<and> reason_of e = Some r))"
proof -
  let ?v = "verifyWebhook rt payload signature clientIp config"
  let ?t = "verifyTimestamp rt (timestamp payload) (timestampTolerance config)"
  have rej: "?v = rejected e \<Longrightarrow> reason_of e = Some r \<Longrightarrow> ?thesis" for e r
    by (simp add: rejected_def)
  show ?thesis
  proof (cases "isTrustedIp rt clientIp config")
    case False
    then show ?thesis
      using rej [OF verifyWebhook_untrusted reason_of_texts(1)] by simp
  next
    case trusted: True
    show ?thesis
    proof (cases "generateSignature rt payload (secret config)")
      case (Inl e)
      with trusted show ?thesis
        using rej [OF verifyWebhook_throws reason_of_texts(3)] by simp
    next
      case (Inr digest)
      show ?thesis
      proof (cases "signature = Some digest")
        case False
        with trusted Inr show ?thesis
          using rej [OF verifyWebhook_bad_signature reason_of_texts(2)] by simp
      next
        case True
        with Inr have m: "signatureMatches rt payload signature config"
          by (simp add: signatureMatches_def)
        from verifyTimestamp_cases [of rt "timestamp payload" "timestampTolerance config"]
        show ?thesis
        proof
          assume ok: "?t = \<lparr>isValid = True, error = None, timestamp' = None\<rparr>"
          then have "isValid ?t" by simp
          from verifyWebhook_accepts [OF trusted m this] show ?thesis by simp
        next
          assume "\<exists>rest. ?t = rejected (''Timestamp too old. Difference: '' @ rest)"
          then obtain rest
            where old: "?t = rejected (''Timestamp too old. Difference: '' @ rest)" ..
          then have "\<not> isValid ?t" by (simp add: rejected_def)
          from verifyWebhook_bad_timestamp [OF trusted m this] old
          have "?v = rejected (''Timestamp too old. Difference: '' @ rest)"
            by (simp add: rejected_def)
          from rej [OF this reason_of_texts(4)] show ?thesis .
        qed
      qed
    qed
  qed
qed

subsection \<open>Trusted addresses\<close>

text \<open>
  Claim C5, as the specification states it: with an empty list of trusted addresses every
  request is rejected as untrusted, for every client address and every environment. The
  code makes an exception for the loopback address \<^verbatim>\<open>::1\<close> when \<^verbatim>\<open>NODE_ENV\<close> is
  \<^verbatim>\<open>development\<close>: there the request of the scenario, correctly signed and fresh, is accepted
  although the list is empty.
\<close>

theorem loopback_counterexample:
  "trustedIps (example_config []) = []
   \<and> verifyWebhook (node ''development'' 1673382012345) (example_payload 1673382000)
       (Some ''f43bc2084d7217731bb9338a35ceba53c9ba46585236dc4f16f2622ba6bbaac4'')
       ''::1'' (example_config []) =
     \<lparr>isValid = True, error = None, timestamp' = Some 1673382000\<rparr>"
  using verifyWebhook_accepts [of "node ''development'' 1673382012345" "''::1''"
      "example_config []" "example_payload 1673382000"
      "Some ''f43bc2084d7217731bb9338a35ceba53c9ba46585236dc4f16f2622ba6bbaac4''"]
  by (simp add: trusted_example example_fields matches_p fresh_example)

text \<open>
  Claim C5, amended: with an empty list of trusted addresses every request is rejected as
  untrusted, whatever its signature and timestamp, unless \<^verbatim>\<open>NODE_ENV\<close> is \<^verbatim>\<open>development\<close> and the
  client address is \<^verbatim>\<open>::1\<close>.
\<close>

theorem empty_trusted_ips:
  assumes "trustedIps config = []"
    and "\<not> (NODE_ENV rt = Some ''development'' \<and> clientIp = ''::1'')"
  shows "verifyWebhook rt payload signature clientIp config = rejected ''Untrusted IP address''"
  using assms by (simp add: verifyWebhook_untrusted isTrustedIp_def)

theorem empty_trusted_ips_witness:
  "verifyWebhook (node ''production'' 1673382012345) (example_payload 1673382000)
     (Some ''f43bc2084d7217731bb9338a35ceba53c9ba46585236dc4f16f2622ba6bbaac4'')
     ''::1'' (example_config []) = rejected ''Untrusted IP address''
   \<and> verifyWebhook (node ''development'' 1673382012345) (example_payload 1673382000)
     (Some ''f43bc2084d7217731bb9338a35ceba53c9ba46585236dc4f16f2622ba6bbaac4'')
     ''127.0.0.1'' (example_config []) = rejected ''Untrusted IP address''"
  using empty_trusted_ips [of "example_config []" "node ''production'' 1673382012345" "''::1''"
      "example_payload 1673382000"
      "Some ''f43bc2084d7217731bb9338a35ceba53c9ba46585236dc4f16f2622ba6bbaac4''"]
    empty_trusted_ips [of "example_config []" "node ''development'' 1673382012345"
      "''127.0.0.1''" "example_payload 1673382000"
      "Some ''f43bc2084d7217731bb9338a35ceba53c9ba46585236dc4f16f2622ba6bbaac4''"]
  by (simp add: example_fields node_def)

subsection \<open>Signature comparison\<close>

text \<open>
  The source compares the signature with \<^verbatim>\<open>!==\<close>. The language fixes the result of this
  comparison and not its running time, so whether it takes the same time for all
  mismatches is outside a model of results; what follows is about results.
\<close>

text \<open>
  Claim C10. The comparison is exact equality with the lowercase hexadecimal digest. With
  the digest primitive of the \<^verbatim>\<open>crypto\<close> module and a trusted client address, every
  signature that is not the HMAC-SHA256 digest of the canonical payload is rejected as an
  invalid signature, and the body of the \<^verbatim>\<open>try\<close> block returns this verdict rather than
  throwing; the digest itself is never rejected for its signature. In particular an absent
  and an empty signature are rejected, and so is the digest written in uppercase whenever
  it contains one of the letters a to f. The digest has 64 characters, all of them
  lowercase hexadecimal digits.
\<close>

theorem signature_exact_match:
  assumes "isTrustedIp rt clientIp config"
    and "createHmac_sha256_hex rt = crypto_createHmac_sha256_hex"
  shows
    "(signature \<noteq> Some (hmac_sha256_hex (secret config) (createSignedPayload payload)) \<longrightarrow>
        verifyWebhook rt payload signature clientIp config = rejected ''Invalid signature'' \<and>
        verifyWebhook_try rt payload signature clientIp config =
          Inr (rejected ''Invalid signature''))
     \<and> (signature = Some (hmac_sha256_hex (secret config) (createSignedPayload payload)) \<longrightarrow>
        error (verifyWebhook rt payload signature clientIp config) \<noteq> Some ''Invalid signature'')
     \<and> verifyWebhook rt payload None clientIp config = rejected ''Invalid signature''
     \<and> verifyWebhook rt payload (Some []) clientIp config = rejected ''Invalid signature''
     \<and> (list_ex (\<lambda>c. c \<in> set ''abcdef'')
           (hmac_sha256_hex (secret config) (createSignedPayload payload)) \<longrightarrow>
        verifyWebhook rt payload
          (Some (toUpperCase (hmac_sha256_hex (secret config) (createSignedPayload payload))))
          clientIp config = rejected ''Invalid signature'')
     \<and> length (hmac_sha256_hex (secret config) (createSignedPayload payload)) = 64
     \<and> list_all is_lower_hex (hmac_sha256_hex (secret config) (createSignedPayload payload))"
proof -
  let ?digest = "hmac_sha256_hex (secret config) (createSignedPayload payload)"
  note gen = generateSignature_crypto [OF assms(2), of payload "secret config"]
  have bad: "verifyWebhook rt payload s clientIp config = rejected ''Invalid signature''"
    if "s \<noteq> Some ?digest" for s
    using verifyWebhook_bad_signature [OF assms(1) gen that] .
  have tried: "verifyWebhook_try rt payload s clientIp config = Inr (rejected ''Invalid signature'')"
    if "s \<noteq> Some ?digest" for s
    using assms(1) gen that by (simp add: verifyWebhook_try_def rejected_def)
  have shape: "length ?digest = 64" "list_all is_lower_hex ?digest"
    using hmac_sha256_hex_shape [of "secret config" "createSignedPayload payload"] by simp_all
  have empty: "Some [] \<noteq> Some ?digest"
    using shape(1) by auto
  have upper: "Some (toUpperCase ?digest) \<noteq> Some ?digest"
    if "list_ex (\<lambda>c. c \<in> set ''abcdef'') ?digest"
    using toUpperCase_changes [OF that] by simp
  have good: "error (verifyWebhook rt payload (Some ?digest) clientIp config) \<noteq>
      Some ''Invalid signature''"
    using assms(1) gen
    by (simp add: verifyWebhook_def verifyWebhook_try_def verifyTimestamp_def Let_def)
  from bad [of signature] tried [of signature] bad [of None] bad [OF empty] bad [OF upper]
    shape good
  show ?thesis by auto
qed

theorem signature_exact_match_witness:
  "verifyWebhook (node ''production'' 1673382012345) (example_payload 1673382000)
     None ''10.0.0.1'' (example_config [''10.0.0.1'']) = rejected ''Invalid signature''
   \<and> verifyWebhook (node ''production'' 1673382012345) (example_payload 1673382000)
     (Some []) ''10.0.0.1'' (example_config [''10.0.0.1'']) = rejected ''Invalid signature''
   \<and> verifyWebhook (node ''production'' 1673382012345) (example_payload 1673382000)
     (Some ''F43BC2084D7217731BB9338A35CEBA53C9BA46585236DC4F16F2622BA6BBAAC4'')
     ''10.0.0.1'' (example_config [''10.0.0.1'']) = rejected ''Invalid signature''
   \<and> verifyWebhook (node ''production'' 1673382012345) (example_payload 1673382000)
     (Some ''f43bc2084d7217731bb9338a35ceba53c9ba46585236dc4f16f2622ba6bbaac5'')
     ''10.0.0.1'' (example_config [''10.0.0.1'']) = rejected ''Invalid signature''
   \<and> hmac_sha256_hex ''s3cr3t'' (createSignedPayload (example_payload 1673382000)) =
     ''f43bc2084d7217731bb9338a35ceba53c9ba46585236dc4f16f2622ba6bbaac4''"
proof -
  let ?rt = "node ''production'' 1673382012345"
  let ?p = "example_payload 1673382000"
  let ?c = "example_config [''10.0.0.1'']"
  have digest: "hmac_sha256_hex ''s3cr3t'' (createSignedPayload ?p) =
      ''f43bc2084d7217731bb9338a35ceba53c9ba46585236dc4f16f2622ba6bbaac4''"
    by (simp only: csp_p hmac_example_p)
  have up: "toUpperCase ''f43bc2084d7217731bb9338a35ceba53c9ba46585236dc4f16f2622ba6bbaac4'' =
      ''F43BC2084D7217731BB9338A35CEBA53C9BA46585236DC4F16F2622BA6BBAAC4''"
    by (simp add: toUpperCase_def upper_def)
  have t: "isTrustedIp ?rt ''10.0.0.1'' ?c"
    by (rule trusted_example(1))
  have r: "createHmac_sha256_hex ?rt = crypto_createHmac_sha256_hex"
    by (rule real_crypto)
  from signature_exact_match [OF t r, where payload = ?p and signature = None]
    signature_exact_match [OF t r, where payload = ?p and signature =
      "Some ''f43bc2084d7217731bb9338a35ceba53c9ba46585236dc4f16f2622ba6bbaac5''"]
  show ?thesis
    by (simp add: digest up example_fields)
qed

subsection \<open>Changing one field\<close>




subsection \<open>Processing after the response\<close>



end
